theory Spec2Isabelle
  imports Complex_Main "HOL-Library.Word"
begin

section \<open>The webhook relay of app.py\<close>

text \<open>
  The program is one Flask module: \<^verbatim>\<open>verify_webhook_signature\<close>,
  \<^verbatim>\<open>parse_tradingview_alert\<close>, \<^verbatim>\<open>place_order\<close> and the handler
  \<^verbatim>\<open>webhook\<close>. Each becomes a HOL function of the same name. What the module takes
  from outside is passed in explicitly:
  \<^item> the configuration read at start-up (\<open>config\<close>);
  \<^item> the library routines of the interpreter that the module calls and that are not
    part of it (\<open>runtime\<close>): the JSON decoder, the conversions behind \<^verbatim>\<open>float()\<close>,
    HMAC-SHA256, the case mapping of non-ASCII text and the clock;
  \<^item> the exchange client, a function from the call made to what the call does
    (return an order, or raise).
  Calls to the logger are left out: nothing reads the log.
\<close>

subsection \<open>Python values\<close>

text \<open>
  A \<^verbatim>\<open>str\<close> is represented by the bytes of its UTF-8 encoding, so \<^verbatim>\<open>s.encode()\<close> is
  the identity, a character is ASCII exactly when its byte is below 128, and searching
  for an ASCII pattern in the bytes finds what searching the characters finds.

  A \<^verbatim>\<open>float\<close> is never computed with here, only converted and passed on. A finite
  one is written as the number its literal denotes, so the source's \<^verbatim>\<open>0.001\<close> is
  \<open>Finite 0.001\<close>; the three special values are kept apart, since the JSON decoder
  accepts \<^verbatim>\<open>NaN\<close> and \<^verbatim>\<open>Infinity\<close>.
\<close>

datatype pyfloat = Finite real | PosInf | NegInf | NaN

datatype pyval =
    PNone
  | PBool bool
  | PInt int
  | PFloat pyfloat
  | PStr string
  | PList "pyval list"
  | PDict "(string \<times> pyval) list"

text \<open>
  A dictionary is given by its items; \<^verbatim>\<open>d.get(key, default)\<close> and \<^verbatim>\<open>d[key]\<close>.
\<close>

definition dict_get :: "(string \<times> pyval) list \<Rightarrow> string \<Rightarrow> pyval \<Rightarrow> pyval" where
  "dict_get d key dflt = (case map_of d key of None \<Rightarrow> dflt | Some v \<Rightarrow> v)"

text \<open>Truth value of an object, as \<^verbatim>\<open>if x\<close> and \<^verbatim>\<open>x and y\<close> test it.\<close>

fun truthy :: "pyval \<Rightarrow> bool" where
  "truthy PNone = False"
| "truthy (PBool b) = b"
| "truthy (PInt n) = (n \<noteq> 0)"
| "truthy (PFloat f) = (f \<noteq> Finite 0)"
| "truthy (PStr s) = (s \<noteq> [])"
| "truthy (PList xs) = (xs \<noteq> [])"
| "truthy (PDict d) = (d \<noteq> [])"

datatype exn =
    TypeError string
  | ValueError string
  | KeyError string

text \<open>\<^verbatim>\<open>str(e)\<close>; for a \<^verbatim>\<open>KeyError\<close> it is the \<^verbatim>\<open>repr\<close> of the key.\<close>

fun str_exn :: "exn \<Rightarrow> string" where
  "str_exn (TypeError m) = m"
| "str_exn (ValueError m) = m"
| "str_exn (KeyError k) = [CHR 0x27] @ k @ [CHR 0x27]"

definition subscript :: "(string \<times> pyval) list \<Rightarrow> string \<Rightarrow> exn + pyval" where
  "subscript d key = (case map_of d key of None \<Rightarrow> Inl (KeyError key) | Some v \<Rightarrow> Inr v)"

subsection \<open>String methods\<close>

definition is_ascii :: "char \<Rightarrow> bool" where
  "is_ascii c = ((of_char c :: nat) < 128)"

definition ascii_upper :: "char \<Rightarrow> char" where
  "ascii_upper c =
     (let n = (of_char c :: nat) in if 97 \<le> n \<and> n \<le> 122 then char_of (n - 32) else c)"

text \<open>
  \<^verbatim>\<open>s.upper()\<close> maps every character on its own. An ASCII character is mapped here;
  a maximal run of non-ASCII bytes (whole characters, in UTF-8) is handed to \<open>uni\<close>,
  the Unicode upper-case mapping, which may well return ASCII text, as it does for the
  sharp s.
\<close>

function str_upper :: "(string \<Rightarrow> string) \<Rightarrow> string \<Rightarrow> string" where
  "str_upper uni [] = []"
| "str_upper uni (c # cs) =
     (if is_ascii c then ascii_upper c # str_upper uni cs
      else uni (c # takeWhile (\<lambda>x. \<not> is_ascii x) cs)
           @ str_upper uni (dropWhile (\<lambda>x. \<not> is_ascii x) cs))"
  by pat_completeness auto
termination
  by (relation "measure (\<lambda>(uni, s). length s)")
    (auto simp: less_Suc_eq_le length_dropWhile_le)

text \<open>\<^verbatim>\<open>s.endswith(suffix)\<close>.\<close>

definition endswith :: "string \<Rightarrow> string \<Rightarrow> bool" where
  "endswith s suffix =
     (length suffix \<le> length s \<and> drop (length s - length suffix) s = suffix)"

text \<open>
  \<^verbatim>\<open>s.replace(old, new)\<close>: one scan from the left, every occurrence of \<open>old\<close> that
  does not overlap an earlier one is replaced, and the scan goes on behind it (the text
  put in is not scanned again). With an empty \<open>old\<close>, \<open>new\<close> is put before every
  character and at the end.
\<close>

function str_replace :: "string \<Rightarrow> string \<Rightarrow> string \<Rightarrow> string" where
  "str_replace old new [] = (if old = [] then new else [])"
| "str_replace old new (c # cs) =
     (if old = [] then new @ c # str_replace old new cs
      else if take (length old) (c # cs) = old
           then new @ str_replace old new (drop (length old) (c # cs))
           else c # str_replace old new cs)"
  by pat_completeness auto
termination
  by (relation "measure (\<lambda>(old, new, s). length s)") auto

subsection \<open>Configuration, library routines, the exchange\<close>

record config =
  WEBHOOK_SECRET :: string

record runtime =
  json_loads :: "string \<Rightarrow> pyval option"
    \<comment> \<open>\<^verbatim>\<open>json.loads\<close>; \<open>None\<close> where it raises\<close>
  float_of_str :: "string \<Rightarrow> pyfloat option"
    \<comment> \<open>\<^verbatim>\<open>float(s)\<close> for a string; \<open>None\<close> where it raises \<^verbatim>\<open>ValueError\<close>\<close>
  float_of_int :: "int \<Rightarrow> pyfloat option"
    \<comment> \<open>\<^verbatim>\<open>float(n)\<close> for an integer; \<open>None\<close> where it raises \<^verbatim>\<open>OverflowError\<close>\<close>
  hmac_sha256 :: "string \<Rightarrow> string \<Rightarrow> 256 word"
    \<comment> \<open>key, message, the 32-byte digest\<close>
  upper_non_ascii :: "string \<Rightarrow> string"
    \<comment> \<open>the Unicode upper-case mapping of non-ASCII text\<close>
  now_isoformat :: string
    \<comment> \<open>\<^verbatim>\<open>datetime.now().isoformat()\<close>\<close>

datatype exchange_call =
    OrderMarket string pyval pyfloat
    \<comment> \<open>\<^verbatim>\<open>client.order_market(symbol, side, quantity)\<close>\<close>
  | OrderLimit string pyval string pyfloat pyval
    \<comment> \<open>\<^verbatim>\<open>client.order_limit(symbol, side, timeInForce, quantity, price)\<close>\<close>

text \<open>
  What a call to the client does: it returns the order, a dictionary, or raises an
  exception, of which the program reads only \<^verbatim>\<open>str(e)\<close>. Only exceptions derived
  from \<^verbatim>\<open>Exception\<close> are meant: the \<^verbatim>\<open>except\<close> clauses catch no others.
\<close>

datatype client_outcome =
    Returns "(string \<times> pyval) list"
  | Raises string

type_synonym client = "exchange_call \<Rightarrow> client_outcome"

subsection \<open>Signature verification\<close>

definition hex_digits :: string where
  "hex_digits = ''0123456789abcdef''"

text \<open>\<^verbatim>\<open>hexdigest()\<close>: the 32 bytes of the digest, first byte first, two digits each.\<close>

definition hexdigest :: "256 word \<Rightarrow> string" where
  "hexdigest w = map (\<lambda>i. hex_digits ! (unat (drop_bit (4 * i) w) mod 16)) (rev [0..<64])"

text \<open>
  \<^verbatim>\<open>hmac.compare_digest\<close> on two \<^verbatim>\<open>str\<close>: it refuses text that is not ASCII.
\<close>

definition compare_digest :: "string \<Rightarrow> string \<Rightarrow> exn + bool" where
  "compare_digest a b =
     (if list_all is_ascii a \<and> list_all is_ascii b then Inr (a = b)
      else Inl (TypeError ''comparing strings with non-ASCII characters is not supported''))"

definition verify_webhook_signature ::
  "config \<Rightarrow> runtime \<Rightarrow> string \<Rightarrow> string \<Rightarrow> exn + bool" where
  "verify_webhook_signature cfg rt request_data signature =
     (let computed_signature = hexdigest (hmac_sha256 rt (WEBHOOK_SECRET cfg) request_data)
      in compare_digest computed_signature signature)"

subsection \<open>Order placement\<close>

text \<open>Lines 55 and 56.\<close>

definition normalize_symbol :: "runtime \<Rightarrow> string \<Rightarrow> string" where
  "normalize_symbol rt symbol =
     (if \<not> endswith symbol ''USDT'' then str_upper (upper_non_ascii rt) symbol @ ''USDT''
      else symbol)"

definition order_failed :: "string \<Rightarrow> (string \<times> pyval) list" where
  "order_failed e = [(''success'', PBool False), (''error'', PStr e)]"

definition order_placed ::
  "(string \<times> pyval) list \<Rightarrow> string \<Rightarrow> pyval \<Rightarrow> pyfloat \<Rightarrow> (string \<times> pyval) list" where
  "order_placed order symbol side quantity =
     [(''success'', PBool True),
      (''order_id'', dict_get order ''orderId'' PNone),
      (''symbol'', PStr symbol),
      (''side'', side),
      (''quantity'', PFloat quantity),
      (''status'', dict_get order ''status'' PNone)]"

text \<open>
  The result is the list of calls made to the client, in order, and the dictionary
  returned, given by its items. An exception of the client, and the \<^verbatim>\<open>ValueError\<close> of line 65, end in
  the \<^verbatim>\<open>except\<close> clause.
\<close>

definition place_order ::
  "runtime \<Rightarrow> client \<Rightarrow> string \<Rightarrow> pyval \<Rightarrow> pyfloat \<Rightarrow> string \<Rightarrow> pyval
     \<Rightarrow> exchange_call list \<times> (string \<times> pyval) list" where
  "place_order rt client symbol side quantity order_type price =
     (let symbol = normalize_symbol rt symbol in
      if order_type = ''MARKET'' then
        (case client (OrderMarket symbol side quantity) of
           Raises e \<Rightarrow> ([OrderMarket symbol side quantity], order_failed e)
         | Returns order \<Rightarrow>
             ([OrderMarket symbol side quantity], order_placed order symbol side quantity))
      else if order_type = ''LIMIT'' \<and> truthy price then
        (case client (OrderLimit symbol side ''GTC'' quantity price) of
           Raises e \<Rightarrow> ([OrderLimit symbol side ''GTC'' quantity price], order_failed e)
         | Returns order \<Rightarrow>
             ([OrderLimit symbol side ''GTC'' quantity price],
              order_placed order symbol side quantity))
      else ([], order_failed (str_exn (ValueError (''Invalid order type: '' @ order_type)))))"

subsection \<open>Alert parsing\<close>

record alert =
  symbol :: string
  signal :: pyval
  side :: pyval
  quantity :: pyfloat
  price :: pyval
  timestamp :: string

text \<open>\<^verbatim>\<open>float(x)\<close>; \<open>None\<close> where it raises.\<close>

fun py_float :: "runtime \<Rightarrow> pyval \<Rightarrow> pyfloat option" where
  "py_float rt PNone = None"
| "py_float rt (PBool b) = Some (Finite (if b then 1 else 0))"
| "py_float rt (PInt n) = float_of_int rt n"
| "py_float rt (PFloat f) = Some f"
| "py_float rt (PStr s) = float_of_str rt s"
| "py_float rt (PList xs) = None"
| "py_float rt (PDict d) = None"

text \<open>
  Line 40: a string is decoded, anything else is taken as already decoded.
\<close>

definition load_alert_data :: "runtime \<Rightarrow> pyval \<Rightarrow> pyval option" where
  "load_alert_data rt data = (case data of PStr s \<Rightarrow> json_loads rt s | _ \<Rightarrow> Some data)"

text \<open>
  Every exception inside the \<^verbatim>\<open>try\<close> block ends in \<^verbatim>\<open>return None\<close>: the decoder
  raising, \<^verbatim>\<open>.get\<close> on something that is no dictionary, \<^verbatim>\<open>.replace\<close> on a symbol
  that is no string, \<^verbatim>\<open>float()\<close> raising.
\<close>

definition parse_tradingview_alert :: "runtime \<Rightarrow> pyval \<Rightarrow> alert option" where
  "parse_tradingview_alert rt data =
     (case load_alert_data rt data of
        None \<Rightarrow> None
      | Some (PDict alert_data) \<Rightarrow>
          (case dict_get alert_data ''symbol'' (PStr []) of
             PStr s \<Rightarrow>
               (case py_float rt (dict_get alert_data ''quantity'' (PFloat (Finite 0.001))) of
                  None \<Rightarrow> None
                | Some q \<Rightarrow>
                    Some \<lparr>symbol = str_replace ''BINANCE:'' [] s,
                          signal = dict_get alert_data ''signal'' (PStr ''BUY''),
                          side = dict_get alert_data ''side'' (PStr ''BUY''),
                          quantity = q,
                          price = dict_get alert_data ''price'' PNone,
                          timestamp = now_isoformat rt\<rparr>)
           | _ \<Rightarrow> None)
      | Some _ \<Rightarrow> None)"

subsection \<open>The handler\<close>

record request =
  get_data :: string
    \<comment> \<open>\<^verbatim>\<open>request.get_data(as_text=True)\<close>, the body as text\<close>
  X_Tradingview_Signature :: "string option"
    \<comment> \<open>the header, \<open>None\<close> when the request has none\<close>

text \<open>
  What the handler does besides answering is recorded as a trace: the calls to the three
  functions above, with their arguments, and the calls that reach the exchange.
\<close>

datatype event =
    Verify string string
  | Parse string
  | PlaceOrder string pyval pyfloat string pyval
  | Exchange exchange_call

type_synonym response = "pyval \<times> nat"

text \<open>
  Lines 96 to 120. The alert is \<open>None\<close> or a dictionary of six items, so
  \<^verbatim>\<open>not alert_data\<close> tests for \<open>None\<close>. \<^verbatim>\<open>place_order\<close> is called with four
  keyword arguments; \<open>order_type\<close> takes its default.
\<close>

definition webhook_alert ::
  "runtime \<Rightarrow> client \<Rightarrow> string \<Rightarrow> event list \<times> (exn + response)" where
  "webhook_alert rt client raw_data =
     (case parse_tradingview_alert rt (PStr raw_data) of
        None \<Rightarrow> ([Parse raw_data], Inr (PDict [(''error'', PStr ''Invalid alert data'')], 400))
      | Some alert_data \<Rightarrow>
          (let (calls, order_result) =
                 place_order rt client (symbol alert_data) (side alert_data)
                   (quantity alert_data) ''MARKET'' (price alert_data);
               trace = [Parse raw_data,
                        PlaceOrder (symbol alert_data) (side alert_data) (quantity alert_data)
                          ''MARKET'' (price alert_data)]
                       @ map Exchange calls
           in case subscript order_result ''success'' of
                Inl e \<Rightarrow> (trace, Inl e)
              | Inr success \<Rightarrow>
                  if truthy success then
                    (trace,
                     Inr (PDict [(''status'', PStr ''success''),
                                 (''message'', PStr ''Order placed successfully''),
                                 (''order'', PDict order_result)], 200))
                  else
                    (trace,
                     Inr (PDict [(''status'', PStr ''error''),
                                 (''message'', PStr ''Failed to place order''),
                                 (''error'', dict_get order_result ''error'' PNone)], 400))))"

text \<open>Lines 90 to 94, then the rest of the \<^verbatim>\<open>try\<close> block.\<close>

definition signature_header :: "request \<Rightarrow> string" where
  "signature_header request =
     (case X_Tradingview_Signature request of None \<Rightarrow> [] | Some v \<Rightarrow> v)"

definition webhook_try ::
  "config \<Rightarrow> runtime \<Rightarrow> client \<Rightarrow> request \<Rightarrow> event list \<times> (exn + response)" where
  "webhook_try cfg rt client request =
     (let raw_data = get_data request;
          signature = signature_header request
      in if signature \<noteq> [] then
           (case verify_webhook_signature cfg rt raw_data signature of
              Inl e \<Rightarrow> ([Verify raw_data signature], Inl e)
            | Inr valid \<Rightarrow>
                if \<not> valid then
                  ([Verify raw_data signature],
                   Inr (PDict [(''error'', PStr ''Invalid signature'')], 401))
                else
                  (let (trace, result) = webhook_alert rt client raw_data
                   in (Verify raw_data signature # trace, result)))
         else webhook_alert rt client raw_data)"

text \<open>The outer \<^verbatim>\<open>except\<close> clause, lines 122 to 124.\<close>

definition webhook :: "config \<Rightarrow> runtime \<Rightarrow> client \<Rightarrow> request \<Rightarrow> event list \<times> response" where
  "webhook cfg rt client request =
     (case webhook_try cfg rt client request of
        (trace, Inl e) \<Rightarrow> (trace, (PDict [(''error'', PStr (str_exn e))], 500))
      | (trace, Inr response) \<Rightarrow> (trace, response))"

subsection \<open>Instances for the examples\<close>

text \<open>
  A runtime that knows the inputs of the examples below and raises on every other text.
  The digest is a fixed value: no example depends on which.
\<close>

definition example_runtime :: runtime where
  "example_runtime =
     \<lparr>json_loads = map_of
        [(''{\"symbol\": \"BTC\"}'', PDict [(''symbol'', PStr ''BTC'')]),
         (''{\"symbol\": \"BTC\", \"price\": 50000}'',
          PDict [(''symbol'', PStr ''BTC''), (''price'', PInt 50000)]),
         (''{\"quantity\": \"abc\"}'', PDict [(''quantity'', PStr ''abc'')])],
      float_of_str = (\<lambda>s. if s = ''0.5'' then Some (Finite 0.5) else None),
      float_of_int = (\<lambda>n. if \<bar>n\<bar> < 2 ^ 53 then Some (Finite (of_int n)) else None),
      hmac_sha256 = (\<lambda>key msg. 0),
      upper_non_ascii = (\<lambda>s. s),
      now_isoformat = ''2024-01-01T00:00:00''\<rparr>"

definition example_config :: config where
  "example_config = \<lparr>WEBHOOK_SECRET = ''your-webhook-secret''\<rparr>"

text \<open>
  Two clients that refuse every order: one raises an exception with the text the
  exchange sends for an account without funds, the other an exception without text,
  such as \<^verbatim>\<open>Exception()\<close>, whose \<^verbatim>\<open>str\<close> is empty.
\<close>

definition rejecting_client :: client where
  "rejecting_client c =
     Raises ''APIError(code=-2010): Account has insufficient balance for requested action.''"

definition silent_client :: client where
  "silent_client c = Raises []"

text \<open>A client that accepts every order.\<close>

definition filling_client :: client where
  "filling_client c = Returns [(''orderId'', PInt 28), (''status'', PStr ''FILLED'')]"

section \<open>Auxiliary facts\<close>

lemma length_hexdigest: "length (hexdigest w) = 64"
  by (simp add: hexdigest_def)

lemma hexdigest_not_empty: "hexdigest w \<noteq> []"
  using length_hexdigest [of w] by auto

lemma hex_digit_ascii: "n < 16 \<Longrightarrow> is_ascii (hex_digits ! n)"
proof -
  assume "n < 16"
  then have "n < length hex_digits"
    by (simp add: hex_digits_def)
  then have "hex_digits ! n \<in> set hex_digits"
    by (rule nth_mem)
  moreover have "\<forall>c \<in> set hex_digits. is_ascii c"
    by (simp add: hex_digits_def is_ascii_def)
  ultimately show ?thesis by blast
qed

lemma hexdigest_ascii: "list_all is_ascii (hexdigest w)"
  by (simp add: hexdigest_def list_all_iff hex_digit_ascii)

lemma verify_ascii:
  "list_all is_ascii signature \<Longrightarrow>
   verify_webhook_signature cfg rt body signature =
     Inr (hexdigest (hmac_sha256 rt (WEBHOOK_SECRET cfg) body) = signature)"
  by (simp add: verify_webhook_signature_def compare_digest_def hexdigest_ascii)

lemma verify_non_ascii:
  "\<not> list_all is_ascii signature \<Longrightarrow>
   verify_webhook_signature cfg rt body signature =
     Inl (TypeError ''comparing strings with non-ASCII characters is not supported'')"
  by (simp add: verify_webhook_signature_def compare_digest_def)

lemma normalize_idem: "normalize_symbol rt (normalize_symbol rt s) = normalize_symbol rt s"
  by (simp add: normalize_symbol_def endswith_def)

lemma str_replace_absent:
  "old \<noteq> [] \<Longrightarrow> \<forall>i. take (length old) (drop i s) \<noteq> old \<Longrightarrow> str_replace old new s = s"
proof (induction s)
  case Nil
  then show ?case by simp
next
  case (Cons c cs)
  have "take (length old) (c # cs) \<noteq> old"
    using Cons.prems(2) [rule_format, of 0] by simp
  moreover have "\<forall>i. take (length old) (drop i cs) \<noteq> old"
  proof
    fix i show "take (length old) (drop i cs) \<noteq> old"
      using Cons.prems(2) [rule_format, of "Suc i"] by simp
  qed
  ultimately show ?case using Cons by simp
qed

lemma str_replace_prefix:
  "old \<noteq> [] \<Longrightarrow> str_replace old new (old @ rest) = new @ str_replace old new rest"
  by (cases old) simp_all


lemma subscript_order_failed: "subscript (order_failed e) ''success'' = Inr (PBool False)"
  by (simp add: subscript_def order_failed_def)

lemma subscript_order_placed:
  "subscript (order_placed order s sd q) ''success'' = Inr (PBool True)"
  by (simp add: subscript_def order_placed_def)

lemma dict_get_order_failed: "dict_get (order_failed e) ''error'' PNone = PStr e"
  by (simp add: dict_get_def order_failed_def)

lemma place_order_market:
  "place_order rt client s sd q ''MARKET'' p =
     ([OrderMarket (normalize_symbol rt s) sd q],
      case client (OrderMarket (normalize_symbol rt s) sd q) of
        Returns order \<Rightarrow> order_placed order (normalize_symbol rt s) sd q
      | Raises e \<Rightarrow> order_failed e)"
  by (simp add: place_order_def Let_def split: client_outcome.splits)

lemma place_order_limit:
  "place_order rt client s sd q ''LIMIT'' p =
     (if truthy p then
        ([OrderLimit (normalize_symbol rt s) sd ''GTC'' q p],
         case client (OrderLimit (normalize_symbol rt s) sd ''GTC'' q p) of
           Returns order \<Rightarrow> order_placed order (normalize_symbol rt s) sd q
         | Raises e \<Rightarrow> order_failed e)
      else ([], order_failed ''Invalid order type: LIMIT''))"
  by (simp add: place_order_def Let_def split: client_outcome.splits)

lemma place_order_raises:
  "c \<in> set (fst (place_order rt client s sd q ot p)) \<Longrightarrow> client c = Raises e \<Longrightarrow>
   snd (place_order rt client s sd q ot p) = order_failed e"
  by (auto simp: place_order_def Let_def split: if_splits client_outcome.splits)

lemma webhook_alert_None:
  "parse_tradingview_alert rt (PStr body) = None \<Longrightarrow>
   webhook_alert rt client body =
     ([Parse body], Inr (PDict [(''error'', PStr ''Invalid alert data'')], 400))"
  by (simp add: webhook_alert_def)

lemma webhook_alert_Some:
  "parse_tradingview_alert rt (PStr body) = Some a \<Longrightarrow>
   webhook_alert rt client body =
     ([Parse body,
       PlaceOrder (symbol a) (side a) (quantity a) ''MARKET'' (price a),
       Exchange (OrderMarket (normalize_symbol rt (symbol a)) (side a) (quantity a))],
      case client (OrderMarket (normalize_symbol rt (symbol a)) (side a) (quantity a)) of
        Returns order \<Rightarrow>
          Inr (PDict [(''status'', PStr ''success''),
                      (''message'', PStr ''Order placed successfully''),
                      (''order'', PDict (order_placed order (normalize_symbol rt (symbol a))
                                           (side a) (quantity a)))], 200)
      | Raises e \<Rightarrow>
          Inr (PDict [(''status'', PStr ''error''),
                      (''message'', PStr ''Failed to place order''),
                      (''error'', PStr e)], 400))"
  by (simp add: webhook_alert_def place_order_market subscript_order_failed
      subscript_order_placed dict_get_order_failed split: client_outcome.splits)

lemma webhook_skipped:
  "signature_header req = [] \<Longrightarrow>
   webhook_try cfg rt client req = webhook_alert rt client (get_data req)"
  by (simp add: webhook_try_def Let_def)

lemma webhook_verified:
  "signature_header req \<noteq> [] \<Longrightarrow>
   verify_webhook_signature cfg rt (get_data req) (signature_header req) = Inr True \<Longrightarrow>
   webhook_try cfg rt client req =
     (Verify (get_data req) (signature_header req) # fst (webhook_alert rt client (get_data req)),
      snd (webhook_alert rt client (get_data req)))"
  by (simp add: webhook_try_def split_beta Let_def)

lemma webhook_rejected:
  "signature_header req \<noteq> [] \<Longrightarrow>
   verify_webhook_signature cfg rt (get_data req) (signature_header req) = Inr False \<Longrightarrow>
   webhook_try cfg rt client req =
     ([Verify (get_data req) (signature_header req)],
      Inr (PDict [(''error'', PStr ''Invalid signature'')], 401))"
  by (simp add: webhook_try_def Let_def)

lemma webhook_raised:
  "signature_header req \<noteq> [] \<Longrightarrow>
   verify_webhook_signature cfg rt (get_data req) (signature_header req) = Inl e \<Longrightarrow>
   webhook_try cfg rt client req = ([Verify (get_data req) (signature_header req)], Inl e)"
  by (simp add: webhook_try_def Let_def)

lemma hexdigest_other_length: "length s \<noteq> 64 \<Longrightarrow> s \<noteq> hexdigest w"
  using length_hexdigest [of w] by blast

lemma webhook_alert_Inr: "\<exists>r. snd (webhook_alert rt client body) = Inr r"
  by (cases "parse_tradingview_alert rt (PStr body)")
    (auto simp: webhook_alert_None webhook_alert_Some split: client_outcome.splits)

lemma webhook_alert_status:
  "snd (webhook_alert rt client body) = Inr (b, st) \<Longrightarrow> st = 200 \<or> st = 400"
  by (cases "parse_tradingview_alert rt (PStr body)")
    (auto simp: webhook_alert_None webhook_alert_Some split: client_outcome.splits)

lemma webhook_alert_trace:
  "\<exists>tr. fst (webhook_alert rt client body) = Parse body # tr \<and> (\<forall>x y. Verify x y \<notin> set tr)"
  by (cases "parse_tradingview_alert rt (PStr body)")
    (auto simp: webhook_alert_None webhook_alert_Some)

lemma webhook_no_signature:
  "signature_header req = [] \<Longrightarrow>
   webhook cfg rt client req =
     (fst (webhook_alert rt client (get_data req)),
      case snd (webhook_alert rt client (get_data req)) of Inr r \<Rightarrow> r)"
  using webhook_alert_Inr [of rt client "get_data req"]
  by (auto simp: webhook_def webhook_skipped split: prod.splits sum.splits)

lemma webhook_valid_signature:
  "signature_header req \<noteq> [] \<Longrightarrow>
   verify_webhook_signature cfg rt (get_data req) (signature_header req) = Inr True \<Longrightarrow>
   webhook cfg rt client req =
     (Verify (get_data req) (signature_header req) # fst (webhook_alert rt client (get_data req)),
      case snd (webhook_alert rt client (get_data req)) of Inr r \<Rightarrow> r)"
  using webhook_alert_Inr [of rt client "get_data req"]
  by (auto simp: webhook_def webhook_verified split: prod.splits sum.splits)

lemma webhook_invalid_signature:
  assumes "signature_header req \<noteq> []"
    and "signature_header req \<noteq> hexdigest (hmac_sha256 rt (WEBHOOK_SECRET cfg) (get_data req))"
  shows "fst (webhook cfg rt client req) = [Verify (get_data req) (signature_header req)]"
    and "list_all is_ascii (signature_header req) \<Longrightarrow>
         snd (webhook cfg rt client req) = (PDict [(''error'', PStr ''Invalid signature'')], 401)"
    and "\<not> list_all is_ascii (signature_header req) \<Longrightarrow>
         snd (webhook cfg rt client req) =
           (PDict [(''error'',
                    PStr ''comparing strings with non-ASCII characters is not supported'')],
            500)"
proof -
  show "fst (webhook cfg rt client req) = [Verify (get_data req) (signature_header req)]"
  proof (cases "list_all is_ascii (signature_header req)")
    case True
    then have "verify_webhook_signature cfg rt (get_data req) (signature_header req) = Inr False"
      using assms(2) by (simp add: verify_ascii)
    then show ?thesis
      using assms(1) by (simp add: webhook_def webhook_rejected)
  next
    case False
    then show ?thesis
      using assms(1) by (simp add: webhook_def webhook_raised verify_non_ascii)
  qed
next
  assume "list_all is_ascii (signature_header req)"
  then have "verify_webhook_signature cfg rt (get_data req) (signature_header req) = Inr False"
    using assms(2) by (simp add: verify_ascii)
  then show "snd (webhook cfg rt client req) = (PDict [(''error'', PStr ''Invalid signature'')], 401)"
    using assms(1) by (simp add: webhook_def webhook_rejected)
next
  assume "\<not> list_all is_ascii (signature_header req)"
  then show "snd (webhook cfg rt client req) =
           (PDict [(''error'',
                    PStr ''comparing strings with non-ASCII characters is not supported'')],
            500)"
    using assms(1) by (simp add: webhook_def webhook_raised verify_non_ascii)
qed

lemma webhook_passed:
  assumes "signature_header req = [] \<or>
           verify_webhook_signature cfg rt (get_data req) (signature_header req) = Inr True"
  shows "webhook cfg rt client req =
     ((if signature_header req = [] then []
       else [Verify (get_data req) (signature_header req)])
      @ fst (webhook_alert rt client (get_data req)),
      case snd (webhook_alert rt client (get_data req)) of Inr r \<Rightarrow> r)"
proof (cases "signature_header req = []")
  case True
  then show ?thesis by (simp add: webhook_no_signature)
next
  case False
  with assms show ?thesis by (simp add: webhook_valid_signature)
qed

lemma webhook_refused:
  assumes "\<not> (signature_header req = [] \<or>
           verify_webhook_signature cfg rt (get_data req) (signature_header req) = Inr True)"
  shows "fst (webhook cfg rt client req) = [Verify (get_data req) (signature_header req)]"
proof (cases "verify_webhook_signature cfg rt (get_data req) (signature_header req)")
  case (Inl e)
  with assms show ?thesis by (simp add: webhook_def webhook_raised)
next
  case (Inr ok)
  with assms have "verify_webhook_signature cfg rt (get_data req) (signature_header req) = Inr False"
    by simp
  with assms show ?thesis by (simp add: webhook_def webhook_rejected)
qed

lemma webhook_exchange_call:
  assumes "Exchange c \<in> set (fst (webhook cfg rt client req))"
  obtains a where "parse_tradingview_alert rt (PStr (get_data req)) = Some a"
    and "c = OrderMarket (normalize_symbol rt (symbol a)) (side a) (quantity a)"
    and "signature_header req = [] \<or>
         verify_webhook_signature cfg rt (get_data req) (signature_header req) = Inr True"
proof -
  have gate: "signature_header req = [] \<or>
         verify_webhook_signature cfg rt (get_data req) (signature_header req) = Inr True"
  proof (rule ccontr)
    assume "\<not> ?thesis"
    then have "fst (webhook cfg rt client req) = [Verify (get_data req) (signature_header req)]"
      by (rule webhook_refused)
    with assms show False by simp
  qed
  then have tr: "Exchange c \<in> set (fst (webhook_alert rt client (get_data req)))"
    using assms by (simp add: webhook_passed split: if_splits)
  show thesis
  proof (cases "parse_tradingview_alert rt (PStr (get_data req))")
    case None
    with tr show ?thesis by (simp add: webhook_alert_None)
  next
    case (Some a)
    with tr have c: "c = OrderMarket (normalize_symbol rt (symbol a)) (side a) (quantity a)"
      by (simp add: webhook_alert_Some)
    show ?thesis by (rule that [OF Some c gate])
  qed
qed

lemma normalize_symbol_BTC: "normalize_symbol rt ''BTC'' = ''BTCUSDT''"
  by (simp add: normalize_symbol_def endswith_def is_ascii_def ascii_upper_def)

lemma example_parse_BTC:
  "parse_tradingview_alert example_runtime (PStr ''{\"symbol\": \"BTC\"}'')
      = Some \<lparr>symbol = ''BTC'', signal = PStr ''BUY'', side = PStr ''BUY'',
              quantity = Finite 0.001, price = PNone,
              timestamp = ''2024-01-01T00:00:00''\<rparr>"
  by (simp add: parse_tradingview_alert_def load_alert_data_def example_runtime_def
      dict_get_def)

section \<open>The claims\<close>

text \<open>
  Claim C1. A request to \<^verbatim>\<open>/webhook\<close> without the header
  \<^verbatim>\<open>X-Tradingview-Signature\<close> is not verified: the first thing the handler does is
  parse the alert, \<^verbatim>\<open>verify_webhook_signature\<close> is never called, the response is the
  one the same body gets with a valid signature, and its status is 200 or 400, never 401.
\<close>

theorem webhook_without_signature_header:
  "(\<exists>tr. fst (webhook cfg rt client \<lparr>get_data = body, X_Tradingview_Signature = None\<rparr>)
           = Parse body # tr \<and> (\<forall>x y. Verify x y \<notin> set tr))
   \<and> snd (webhook cfg rt client \<lparr>get_data = body, X_Tradingview_Signature = None\<rparr>)
     = snd (webhook cfg rt client
              \<lparr>get_data = body,
               X_Tradingview_Signature =
                 Some (hexdigest (hmac_sha256 rt (WEBHOOK_SECRET cfg) body))\<rparr>)
   \<and> (snd (snd (webhook cfg rt client \<lparr>get_data = body, X_Tradingview_Signature = None\<rparr>))
        = 200
      \<or> snd (snd (webhook cfg rt client \<lparr>get_data = body, X_Tradingview_Signature = None\<rparr>))
        = 400)
   \<and> snd (snd (webhook cfg rt client \<lparr>get_data = body, X_Tradingview_Signature = None\<rparr>))
     \<noteq> 401"
proof -
  let ?none = "\<lparr>get_data = body, X_Tradingview_Signature = None\<rparr>"
  let ?good = "\<lparr>get_data = body,
                X_Tradingview_Signature =
                  Some (hexdigest (hmac_sha256 rt (WEBHOOK_SECRET cfg) body))\<rparr>"
  obtain b st where r: "snd (webhook_alert rt client body) = Inr (b, st)"
    using webhook_alert_Inr [of rt client body] by fastforce
  have st: "st = 200 \<or> st = 400"
    using r by (rule webhook_alert_status)
  have none: "webhook cfg rt client ?none = (fst (webhook_alert rt client body), (b, st))"
    by (simp add: webhook_no_signature signature_header_def r)
  have "verify_webhook_signature cfg rt body
          (hexdigest (hmac_sha256 rt (WEBHOOK_SECRET cfg) body)) = Inr True"
    by (simp add: verify_ascii hexdigest_ascii)
  then have good: "snd (webhook cfg rt client ?good) = (b, st)"
    by (simp add: webhook_valid_signature signature_header_def hexdigest_not_empty r)
  show ?thesis
    using webhook_alert_trace [of rt client body] st by (auto simp: none good)
qed

text \<open>
  Claim C2. A request with a non-empty signature that differs from the hexadecimal
  HMAC-SHA256 of the body is to be answered with 401, before any parsing and without a
  call to the exchange. For a signature of ASCII characters the handler does that, and
  for every such request the trace is the one call to \<^verbatim>\<open>verify_webhook_signature\<close>
  (\<open>webhook_invalid_signature\<close>). For a signature with a character outside
  ASCII, here the e with acute accent, \<^verbatim>\<open>hmac.compare_digest\<close> raises
  \<^verbatim>\<open>TypeError\<close>, which the outer \<^verbatim>\<open>except\<close> clause turns into status 500 with
  the text of the exception.
\<close>

theorem webhook_non_ascii_signature:
  "[CHR 0xC3, CHR 0xA9] \<noteq> hexdigest (hmac_sha256 rt (WEBHOOK_SECRET cfg) body)
   \<and> webhook cfg rt client
       \<lparr>get_data = body, X_Tradingview_Signature = Some [CHR 0xC3, CHR 0xA9]\<rparr>
     = ([Verify body [CHR 0xC3, CHR 0xA9]],
        (PDict [(''error'',
                 PStr ''comparing strings with non-ASCII characters is not supported'')],
         500))"
proof -
  have ne: "[CHR 0xC3, CHR 0xA9] \<noteq> hexdigest (hmac_sha256 rt (WEBHOOK_SECRET cfg) body)"
    by (rule hexdigest_other_length) simp
  have "\<not> list_all is_ascii [CHR 0xC3, CHR 0xA9]"
    by (simp add: is_ascii_def)
  then have "verify_webhook_signature cfg rt body [CHR 0xC3, CHR 0xA9] =
     Inl (TypeError ''comparing strings with non-ASCII characters is not supported'')"
    by (rule verify_non_ascii)
  then show ?thesis
    using ne by (simp add: webhook_def webhook_raised signature_header_def)
qed

text \<open>
  Claim C9. The symbol normalization of \<^verbatim>\<open>place_order\<close> is idempotent: applied
  twice it gives what it gives applied once, for every symbol.
\<close>

theorem normalize_symbol_idempotent:
  "normalize_symbol rt (normalize_symbol rt s) = normalize_symbol rt s"
  by (simp add: normalize_symbol_def endswith_def)

text \<open>
  Claim C10. A request whose \<^verbatim>\<open>X-Tradingview-Signature\<close> header is the empty
  string is handled exactly as a request without the header, for every body: the trace
  and the response are the same, the handler starts with parsing and never calls
  \<^verbatim>\<open>verify_webhook_signature\<close>, although the empty string is the digest of no body
  and verification would have returned \<^verbatim>\<open>False\<close>.
\<close>

theorem webhook_empty_signature_header:
  "webhook cfg rt client \<lparr>get_data = body, X_Tradingview_Signature = Some []\<rparr>
     = webhook cfg rt client \<lparr>get_data = body, X_Tradingview_Signature = None\<rparr>
   \<and> (\<exists>tr. fst (webhook cfg rt client \<lparr>get_data = body, X_Tradingview_Signature = Some []\<rparr>)
             = Parse body # tr \<and> (\<forall>x y. Verify x y \<notin> set tr))
   \<and> hexdigest (hmac_sha256 rt (WEBHOOK_SECRET cfg) body) \<noteq> []
   \<and> verify_webhook_signature cfg rt body [] = Inr False"
proof -
  have "webhook cfg rt client \<lparr>get_data = body, X_Tradingview_Signature = Some []\<rparr>
          = (fst (webhook_alert rt client body),
             case snd (webhook_alert rt client body) of Inr r \<Rightarrow> r)"
    by (simp add: webhook_no_signature signature_header_def)
  moreover have "webhook cfg rt client \<lparr>get_data = body, X_Tradingview_Signature = None\<rparr>
          = (fst (webhook_alert rt client body),
             case snd (webhook_alert rt client body) of Inr r \<Rightarrow> r)"
    by (simp add: webhook_no_signature signature_header_def)
  moreover have "verify_webhook_signature cfg rt body [] = Inr False"
    by (simp add: verify_ascii hexdigest_not_empty)
  ultimately show ?thesis
    using webhook_alert_trace [of rt client body] by (simp add: hexdigest_not_empty)
qed

text \<open>
  Claim C3, as amended. When the call to the exchange client raises an exception,
  \<^verbatim>\<open>place_order\<close> returns the failure result, \<^verbatim>\<open>success\<close> false and \<^verbatim>\<open>error\<close> the
  \<^verbatim>\<open>str\<close> of the exception, and the handler answers 400 with status
  \<^verbatim>\<open>error\<close> and that same string as \<^verbatim>\<open>error\<close>. The string is what the exception
  gives: nothing makes it non-empty, and for an exception without text it is empty
  (the counterexample below).
\<close>

theorem exchange_exception_reported:
  assumes "client c = Raises e"
  shows "(c \<in> set (fst (place_order rt client s sd q ot p)) \<longrightarrow>
            snd (place_order rt client s sd q ot p)
              = [(''success'', PBool False), (''error'', PStr e)])
       \<and> (Exchange c \<in> set (fst (webhook cfg rt client req)) \<longrightarrow>
            snd (webhook cfg rt client req)
              = (PDict [(''status'', PStr ''error''),
                        (''message'', PStr ''Failed to place order''),
                        (''error'', PStr e)], 400))"
proof (intro conjI impI)
  assume "c \<in> set (fst (place_order rt client s sd q ot p))"
  then have "snd (place_order rt client s sd q ot p) = order_failed e"
    using assms by (rule place_order_raises)
  then show "snd (place_order rt client s sd q ot p)
              = [(''success'', PBool False), (''error'', PStr e)]"
    by (simp add: order_failed_def)
next
  assume "Exchange c \<in> set (fst (webhook cfg rt client req))"
  then obtain a where a: "parse_tradingview_alert rt (PStr (get_data req)) = Some a"
    and c: "c = OrderMarket (normalize_symbol rt (symbol a)) (side a) (quantity a)"
    and gate: "signature_header req = [] \<or>
         verify_webhook_signature cfg rt (get_data req) (signature_header req) = Inr True"
    by (rule webhook_exchange_call)
  from assms c have "client (OrderMarket (normalize_symbol rt (symbol a)) (side a) (quantity a))
      = Raises e"
    by simp
  then show "snd (webhook cfg rt client req)
              = (PDict [(''status'', PStr ''error''),
                        (''message'', PStr ''Failed to place order''),
                        (''error'', PStr e)], 400)"
    by (simp add: webhook_passed [OF gate] webhook_alert_Some [OF a])
qed

theorem exchange_exception_reported_witness:
  "rejecting_client (OrderMarket ''BTCUSDT'' (PStr ''BUY'') (Finite 0.001))
     = Raises ''APIError(code=-2010): Account has insufficient balance for requested action.''
   \<and> OrderMarket ''BTCUSDT'' (PStr ''BUY'') (Finite 0.001)
       \<in> set (fst (place_order example_runtime rejecting_client ''BTC'' (PStr ''BUY'')
                     (Finite 0.001) ''MARKET'' PNone))
   \<and> snd (place_order example_runtime rejecting_client ''BTC'' (PStr ''BUY'')
            (Finite 0.001) ''MARKET'' PNone)
     = [(''success'', PBool False),
        (''error'',
         PStr ''APIError(code=-2010): Account has insufficient balance for requested action.'')]
   \<and> Exchange (OrderMarket ''BTCUSDT'' (PStr ''BUY'') (Finite 0.001))
       \<in> set (fst (webhook example_config example_runtime rejecting_client
                     \<lparr>get_data = ''{\"symbol\": \"BTC\"}'', X_Tradingview_Signature = None\<rparr>))
   \<and> snd (webhook example_config example_runtime rejecting_client
            \<lparr>get_data = ''{\"symbol\": \"BTC\"}'', X_Tradingview_Signature = None\<rparr>)
     = (PDict [(''status'', PStr ''error''),
               (''message'', PStr ''Failed to place order''),
               (''error'',
                PStr ''APIError(code=-2010): Account has insufficient balance for requested action.'')],
        400)"
proof -
  have h: "rejecting_client (OrderMarket ''BTCUSDT'' (PStr ''BUY'') (Finite 0.001))
     = Raises ''APIError(code=-2010): Account has insufficient balance for requested action.''"
    by (simp add: rejecting_client_def)
  note n = normalize_symbol_BTC [of example_runtime]
  note p = example_parse_BTC
  have m: "OrderMarket ''BTCUSDT'' (PStr ''BUY'') (Finite 0.001)
       \<in> set (fst (place_order example_runtime rejecting_client ''BTC'' (PStr ''BUY'')
                     (Finite 0.001) ''MARKET'' PNone))"
    by (simp add: place_order_market n)
  have w: "Exchange (OrderMarket ''BTCUSDT'' (PStr ''BUY'') (Finite 0.001))
       \<in> set (fst (webhook example_config example_runtime rejecting_client
                     \<lparr>get_data = ''{\"symbol\": \"BTC\"}'', X_Tradingview_Signature = None\<rparr>))"
    by (simp add: webhook_no_signature signature_header_def webhook_alert_Some [OF p] n)
  show ?thesis
    using h m w
      exchange_exception_reported [where client = rejecting_client
        and c = "OrderMarket ''BTCUSDT'' (PStr ''BUY'') (Finite 0.001)"
        and rt = example_runtime and s = "''BTC''" and sd = "PStr ''BUY''"
        and q = "Finite 0.001" and ot = "''MARKET''" and p = PNone and cfg = example_config
        and req = "\<lparr>get_data = ''{\"symbol\": \"BTC\"}'', X_Tradingview_Signature = None\<rparr>",
        OF h]
    by simp
qed

theorem exchange_exception_without_text:
  "silent_client (OrderMarket ''BTCUSDT'' (PStr ''BUY'') (Finite 0.001)) = Raises []
   \<and> webhook example_config example_runtime silent_client
       \<lparr>get_data = ''{\"symbol\": \"BTC\"}'', X_Tradingview_Signature = None\<rparr>
     = ([Parse ''{\"symbol\": \"BTC\"}'',
         PlaceOrder ''BTC'' (PStr ''BUY'') (Finite 0.001) ''MARKET'' PNone,
         Exchange (OrderMarket ''BTCUSDT'' (PStr ''BUY'') (Finite 0.001))],
        (PDict [(''status'', PStr ''error''),
                (''message'', PStr ''Failed to place order''),
                (''error'', PStr [])],
         400))"
proof -
  note n = normalize_symbol_BTC [of example_runtime]
  note p = example_parse_BTC
  show ?thesis
    by (simp add: webhook_no_signature signature_header_def webhook_alert_Some [OF p] n
        silent_client_def)
qed

end
